theory Spec2Isabelle
  imports Main "HOL-Library.Sublist"
begin

section \<open>Data model of \<open>src/main.ts\<close>\<close>

text \<open>
  JavaScript strings are modelled as \<open>string\<close>, a list of 8-bit characters read as
  the UTF-8 bytes of the text. The program compares strings, concatenates them, and looks
  for ASCII texts in them (the four tokens, the line feed); the byte of an ASCII character
  never occurs inside the encoding of another character, so these operations give the
  same result on bytes as on the code units of JavaScript. Only the fields of the host's
  response types that the program reads are kept.
\<close>

text \<open>\<open>Tag\<close>: an element of the \<open>listTags\<close> response; the program reads \<open>tag.name\<close> only.\<close>

record Tag =
  name :: string

text \<open>
  \<open>Commit\<close>: an element of \<open>compareCommits(...).data.commits\<close>. The host's type of
  \<open>commit.author\<close> is a user (with a \<open>login\<close>), an empty object, or \<open>null\<close>.
\<close>

datatype Author = SimpleUser string | EmptyObject

record CommitDetail =
  message :: string

record Commit =
  sha :: string
  commit :: CommitDetail
  author :: "Author option"

text \<open>\<open>commit.author?.login\<close>: \<open>None\<close> stands for \<open>undefined\<close>.\<close>

fun author_login :: "Author option \<Rightarrow> string option" where
  "author_login None = None"
| "author_login (Some EmptyObject) = None"
| "author_login (Some (SimpleUser l)) = Some l"

text \<open>\<open>x ?? d\<close> on an optional string.\<close>

fun nullish :: "string option \<Rightarrow> string \<Rightarrow> string" where
  "nullish None d = d"
| "nullish (Some s) d = s"

text \<open>Truthiness of a string, and of a value that is a string or \<open>undefined\<close>.\<close>

definition truthy :: "string \<Rightarrow> bool" where
  "truthy s = (s \<noteq> [])"

fun truthy_opt :: "string option \<Rightarrow> bool" where
  "truthy_opt None = False"
| "truthy_opt (Some s) = truthy s"

section \<open>Tag Existence Check\<close>

text \<open>\<open>Array.prototype.some\<close>: true as soon as the callback is true on an element.\<close>

primrec some :: "('a \<Rightarrow> bool) \<Rightarrow> 'a list \<Rightarrow> bool" where
  "some p [] = False"
| "some p (x # xs) = (if p x then True else some p xs)"

definition tagExists :: "Tag list \<Rightarrow> string \<Rightarrow> bool" where
  "tagExists tags tagName = some (\<lambda>tag. name tag = tagName) tags"

section \<open>Template Formatter\<close>

subsection \<open>String primitives\<close>

text \<open>
  \<open>s.split(sep)\<close> for a one-character separator: the pieces between the occurrences
  of the separator; never an empty array.
\<close>

fun split :: "char \<Rightarrow> string \<Rightarrow> string list" where
  "split sep [] = [[]]"
| "split sep (x # xs) =
     (if x = sep then [] # split sep xs
      else (case split sep xs of
              [] \<Rightarrow> [[x]]
            | piece # pieces \<Rightarrow> (x # piece) # pieces))"

text \<open>
  \<open>pieces[0]\<close> returned from a replacer callback: an absent element is \<open>undefined\<close>,
  which \<open>replace\<close> renders as the text \<open>undefined\<close>.
\<close>

fun first_piece :: "string list \<Rightarrow> string" where
  "first_piece [] = ''undefined''"
| "first_piece (piece # pieces) = piece"

text \<open>\<open>Array.prototype.join\<close> on an array of strings.\<close>

fun join :: "string \<Rightarrow> string list \<Rightarrow> string" where
  "join sep [] = []"
| "join sep [x] = x"
| "join sep (x # y # ys) = x @ sep @ join sep (y # ys)"

subsection \<open>The regular expression\<close>

text \<open>
  \<open>/({{message}})|({{messageHeadline}})|({{author}})|({{sha}})/g\<close> tried at the
  start of a string: the alternatives are literal texts, tried left to right; the result
  is the matched text and the four capture groups, of which exactly the one of the
  alternative that matched is defined.
\<close>

type_synonym groups = "string \<times> string option \<times> string option \<times> string option \<times> string option"

definition exec_at :: "string \<Rightarrow> groups option" where
  "exec_at s =
     (if prefix ''{{message}}'' s then
        Some (''{{message}}'', Some ''{{message}}'', None, None, None)
      else if prefix ''{{messageHeadline}}'' s then
        Some (''{{messageHeadline}}'', None, Some ''{{messageHeadline}}'', None, None)
      else if prefix ''{{author}}'' s then
        Some (''{{author}}'', None, None, Some ''{{author}}'', None)
      else if prefix ''{{sha}}'' s then
        Some (''{{sha}}'', None, None, None, Some ''{{sha}}'')
      else None)"

text \<open>
  \<open>s.replace(re, callback)\<close> with the global flag: scan from the left; at a match, emit
  what the callback returns (taken as it is) and go on after the matched text; else copy
  one character. The text a callback returned is never scanned again.
\<close>

function replace_all ::
  "(string \<Rightarrow> string option \<Rightarrow> string option \<Rightarrow> string option \<Rightarrow> string option \<Rightarrow> string)
     \<Rightarrow> string \<Rightarrow> string" where
  "replace_all f [] = []"
| "replace_all f (x # xs) =
     (case exec_at (x # xs) of
        Some (m, g1, g2, g3, g4) \<Rightarrow> f m g1 g2 g3 g4 @ replace_all f (drop (length m) (x # xs))
      | None \<Rightarrow> x # replace_all f xs)"
  by pat_completeness auto
termination
proof (relation "measure (\<lambda>(f, s). length s)")
  show "wf (measure (\<lambda>(f, s). length s))" by simp
next
  fix f :: "string \<Rightarrow> string option \<Rightarrow> string option \<Rightarrow> string option \<Rightarrow> string option \<Rightarrow> string"
  fix x xs x2 m y g1 ya g2 yb g3 g4
  assume "exec_at (x # xs) = Some x2" "(m, y) = x2"
  then have "m \<noteq> []" by (auto simp: exec_at_def split: if_splits)
  then show "((f, drop (length m) (x # xs)), (f, x # xs)) \<in> measure (\<lambda>(f, s). length s)"
    by (cases m) auto
next
  fix f :: "string \<Rightarrow> string option \<Rightarrow> string option \<Rightarrow> string option \<Rightarrow> string option \<Rightarrow> string"
  fix x :: char and xs :: string
  show "((f, xs), (f, x # xs)) \<in> measure (\<lambda>(f, s). length s)" by simp
qed

subsection \<open>\<open>formatCommit\<close>\<close>

text \<open>The replacer callback of \<open>formatCommit\<close>, with the source's order of tests.\<close>

definition replacer ::
  "Commit \<Rightarrow> string \<Rightarrow> string option \<Rightarrow> string option \<Rightarrow> string option \<Rightarrow> string option \<Rightarrow> string" where
  "replacer c match messageG messageHeadlineG authorG shaG =
     (if truthy_opt messageG then message (commit c)
      else if truthy_opt messageHeadlineG then first_piece (split CHR 0x0A (message (commit c)))
      else if truthy_opt authorG then nullish (author_login (author c)) []
      else if truthy_opt shaG then sha c
      else match)"

definition formatCommit :: "Commit \<Rightarrow> string \<Rightarrow> string" where
  "formatCommit c structure = replace_all (replacer c) structure"

section \<open>Effects: the host, the log and the outputs\<close>

text \<open>
  A thrown value: an \<open>Error\<close> with its message, or any other value, kept as the text
  \<open>String(value)\<close> gives.
\<close>

datatype error = Error string | Thrown string

text \<open>\<open>error instanceof Error ? error.message : String(error)\<close>\<close>

fun error_text :: "error \<Rightarrow> string" where
  "error_text (Error msg) = msg"
| "error_text (Thrown txt) = txt"

text \<open>
  What an invocation does that can be observed: the lines it logs through \<open>core\<close>, the
  outputs it sets, the failure it reports, and the requests it sends to the host, each
  with its arguments, in the order they happen.
\<close>

datatype event =
    Debug string
  | Info string
  | Warning string
  | SetOutput string string
  | SetFailed string
  | ListTags string string nat
  | CompareCommits string string string string
  | CreateTag string string string string string string
  | CreateRef string string string string

text \<open>
  The value \<open>yaml.load\<close> returns. A number is kept as an integer: the program tests a
  number's truthiness and type only.
\<close>

datatype yaml =
    YUndefined
  | YNull
  | YBool bool
  | YNumber int
  | YString string
  | YArray "yaml list"
  | YObject "(string \<times> yaml) list"

text \<open>The fields of the \<open>createTag\<close> and \<open>createRef\<close> responses that the program reads.\<close>

record TagObject =
  tag :: string
  object_sha :: string

record Reference =
  ref :: string
  url :: string

text \<open>
  Everything the program reads from outside: the process environment, the action's
  inputs, the file system, the YAML parser, the repository of the context, and the
  host's answer to each request.
\<close>

record World =
  env_GITHUB_TOKEN :: "string option"
  env_INPUT_GITHUB_TOKEN :: "string option"
  env_GITHUB_WORKSPACE :: "string option"
  env_GITHUB_SHA :: "string option"
  getInput :: "string \<Rightarrow> string"
  path_join :: "string \<Rightarrow> string \<Rightarrow> string \<Rightarrow> string"
  existsSync :: "string \<Rightarrow> bool"
  readFileSync :: "string \<Rightarrow> error + string"
  yaml_load :: "string \<Rightarrow> error + yaml"
  context_repo :: "error + string \<times> string"
  listTags :: "string \<Rightarrow> string \<Rightarrow> nat \<Rightarrow> error + Tag list"
  compareCommits :: "string \<Rightarrow> string \<Rightarrow> string \<Rightarrow> string \<Rightarrow> error + Commit list"
  createTag :: "string \<Rightarrow> string \<Rightarrow> string \<Rightarrow> string \<Rightarrow> string \<Rightarrow> string \<Rightarrow> error + TagObject"
  createRef :: "string \<Rightarrow> string \<Rightarrow> string \<Rightarrow> string \<Rightarrow> error + Reference"

text \<open>
  A computation returns a value or throws, and leaves the events it caused.
\<close>

type_synonym 'a action = "(error + 'a) \<times> event list"

definition ret :: "'a \<Rightarrow> 'a action" where
  "ret a = (Inr a, [])"

definition throw :: "error \<Rightarrow> 'a action" where
  "throw e = (Inl e, [])"

definition emit :: "event \<Rightarrow> unit action" where
  "emit ev = (Inr (), [ev])"

text \<open>Sequencing: a throw skips the rest.\<close>

definition bind :: "'a action \<Rightarrow> ('a \<Rightarrow> 'b action) \<Rightarrow> 'b action" where
  "bind m f =
     (case m of
        (Inl e, tr) \<Rightarrow> (Inl e, tr)
      | (Inr a, tr) \<Rightarrow> (case f a of (r, tr') \<Rightarrow> (r, tr @ tr')))"

text \<open>\<open>try { m } catch (error) { h error }\<close>\<close>

definition try_catch :: "'a action \<Rightarrow> (error \<Rightarrow> 'a action) \<Rightarrow> 'a action" where
  "try_catch m h =
     (case m of
        (Inl e, tr) \<Rightarrow> (case h e of (r, tr') \<Rightarrow> (r, tr @ tr'))
      | (Inr a, tr) \<Rightarrow> (Inr a, tr))"

text \<open>A request to the host: the request is sent, then the host's answer is the result.\<close>

definition request :: "event \<Rightarrow> error + 'a \<Rightarrow> 'a action" where
  "request ev answer = (answer, [ev])"

section \<open>Configuration\<close>

text \<open>\<open>a || b\<close> on values that are a string or \<open>undefined\<close>.\<close>

definition or_opt :: "string option \<Rightarrow> string option \<Rightarrow> string option" where
  "or_opt a b = (if truthy_opt a then a else b)"

text \<open>\<open>a || d\<close> on strings.\<close>

definition or_str :: "string \<Rightarrow> string \<Rightarrow> string" where
  "or_str a d = (if truthy a then a else d)"

definition getEnvironmentVariables :: "World \<Rightarrow> (string \<times> string \<times> string) action" where
  "getEnvironmentVariables w =
     (let token = or_opt (env_GITHUB_TOKEN w) (env_INPUT_GITHUB_TOKEN w) in
      if \<not> truthy_opt token then throw (Error ''GITHUB_TOKEN is required'')
      else
        let workspace = env_GITHUB_WORKSPACE w in
        if \<not> truthy_opt workspace then throw (Error ''GITHUB_WORKSPACE is not set'')
        else
          let sha = env_GITHUB_SHA w in
          if \<not> truthy_opt sha then throw (Error ''GITHUB_SHA is not set'')
          else ret (the token, the workspace, the sha))"

text \<open>
  \<open>String.prototype.trim\<close>, on the white space and line terminators that are single
  characters here: tab, line feed, vertical tab, form feed, carriage return, space.
\<close>

definition is_space :: "char \<Rightarrow> bool" where
  "is_space c = (c \<in> set [CHR 0x09, CHR 0x0A, CHR 0x0B, CHR 0x0C, CHR 0x0D, CHR '' ''])"

definition trim :: "string \<Rightarrow> string" where
  "trim s = rev (dropWhile is_space (rev (dropWhile is_space s)))"

record ActionInputs =
  packageRoot :: string
  tagPrefix :: string
  tagSuffix :: string
  tagMessage :: string
  changelogStructure :: string

definition getActionInputs :: "World \<Rightarrow> ActionInputs" where
  "getActionInputs w =
     \<lparr> packageRoot = or_str (getInput w ''package_root'') ''./'',
       tagPrefix = or_str (getInput w ''tag_prefix'') [],
       tagSuffix = or_str (getInput w ''tag_suffix'') [],
       tagMessage = trim (getInput w ''tag_message''),
       changelogStructure =
         or_str (getInput w ''changelog_structure'')
           (''**{{message}}** {{sha}})'' @ [CHR 0x0A]) \<rparr>"

text \<open>\<open>Partial<ActionOutputs>\<close>: \<open>None\<close> is a key that is not given.\<close>

record ActionOutputs =
  tagname :: "string option"
  tagsha :: "string option"
  taguri :: "string option"
  tagmessage :: "string option"
  tagref :: "string option"

definition no_outputs :: ActionOutputs where
  "no_outputs = \<lparr> tagname = None, tagsha = None, taguri = None, tagmessage = None, tagref = None \<rparr>"

text \<open>
  \<open>setActionOutputs\<close>: the given keys over the defaults (each the empty string), every
  key set, in the order of the defaults.
\<close>

definition setActionOutputs :: "ActionOutputs \<Rightarrow> unit action" where
  "setActionOutputs outputs =
     (Inr (),
      [SetOutput ''tagname'' (nullish (tagname outputs) []),
       SetOutput ''tagsha'' (nullish (tagsha outputs) []),
       SetOutput ''taguri'' (nullish (taguri outputs) []),
       SetOutput ''tagmessage'' (nullish (tagmessage outputs) []),
       SetOutput ''tagref'' (nullish (tagref outputs) [])])"

subsection \<open>\<open>loadPubspec\<close>\<close>

text \<open>\<open>!v\<close> on a parsed value.\<close>

fun falsy :: "yaml \<Rightarrow> bool" where
  "falsy YUndefined = True"
| "falsy YNull = True"
| "falsy (YBool b) = (\<not> b)"
| "falsy (YNumber n) = (n = 0)"
| "falsy (YString s) = (s = [])"
| "falsy (YArray vs) = False"
| "falsy (YObject kvs) = False"

text \<open>\<open>typeof v === 'object'\<close>\<close>

fun typeof_object :: "yaml \<Rightarrow> bool" where
  "typeof_object YNull = True"
| "typeof_object (YArray vs) = True"
| "typeof_object (YObject kvs) = True"
| "typeof_object v = False"

text \<open>\<open>'version' in v\<close>, for a value that is an object.\<close>

fun has_version :: "yaml \<Rightarrow> bool" where
  "has_version (YObject kvs) = (''version'' \<in> set (map fst kvs))"
| "has_version v = False"

text \<open>\<open>v.version\<close>, for a value that is an object.\<close>

fun get_version :: "yaml \<Rightarrow> yaml" where
  "get_version (YObject kvs) = (case map_of kvs ''version'' of None \<Rightarrow> YUndefined | Some v \<Rightarrow> v)"
| "get_version v = YUndefined"

record PubspecYaml =
  version :: string

definition loadPubspec :: "World \<Rightarrow> string \<Rightarrow> string \<Rightarrow> PubspecYaml action" where
  "loadPubspec w workspacePath packageRoot' =
     (let pubspecPath = path_join w workspacePath packageRoot' ''pubspec.yaml'' in
      bind (emit (Debug (''Looking for pubspec.yaml at: '' @ pubspecPath))) (\<lambda>_.
      if \<not> existsSync w pubspecPath then
        throw (Error (''pubspec.yaml does not exist at '' @ pubspecPath))
      else
        bind (readFileSync w pubspecPath, []) (\<lambda>fileContents.
        bind (yaml_load w fileContents, []) (\<lambda>parsed.
        if falsy parsed \<or> \<not> typeof_object parsed \<or> \<not> has_version parsed then
          throw (Error ''Invalid pubspec.yaml: missing version field'')
        else
          (case get_version parsed of
             YString v \<Rightarrow>
               if v = [] then
                 throw (Error ''Invalid pubspec.yaml: version must be a non-empty string'')
               else ret \<lparr> version = v \<rparr>
           | _ \<Rightarrow> throw (Error ''Invalid pubspec.yaml: version must be a non-empty string''))))))"

section \<open>Host operations\<close>

definition fetchExistingTags :: "World \<Rightarrow> string \<Rightarrow> string \<Rightarrow> Tag list action" where
  "fetchExistingTags w owner repo =
     try_catch
       (request (ListTags owner repo 100) (listTags w owner repo 100))
       (\<lambda>error.
          bind (emit (Debug (''No tags found: '' @ error_text error))) (\<lambda>_. ret []))"

definition generateChangelog ::
  "World \<Rightarrow> string \<Rightarrow> string \<Rightarrow> string \<Rightarrow> string \<Rightarrow> string \<Rightarrow> string action" where
  "generateChangelog w owner repo baseTag headRef structure =
     bind (request (CompareCommits owner repo baseTag headRef)
             (compareCommits w owner repo baseTag headRef)) (\<lambda>commits.
     ret (join [CHR 0x0A] (map (\<lambda>commit. formatCommit commit structure) commits)))"

text \<open>
  \<open>getTagMessage\<close>. \<open>existingTags[0]\<close> is read only after the test that the list is
  not empty.
\<close>

definition getTagMessage ::
  "World \<Rightarrow> string \<Rightarrow> string \<Rightarrow> string \<Rightarrow> Tag list \<Rightarrow> string \<Rightarrow> string \<Rightarrow> string action" where
  "getTagMessage w owner repo providedMessage existingTags changelogStructure' version' =
     (if truthy providedMessage then ret providedMessage
      else
        (case existingTags of
           [] \<Rightarrow> ret (''Version '' @ version')
         | latestTag # _ \<Rightarrow>
             try_catch
               (bind (generateChangelog w owner repo (name latestTag) ''main'' changelogStructure')
                  (\<lambda>changelog. ret (or_str changelog (''Version '' @ version'))))
               (\<lambda>error.
                  bind (emit (Warning (''Failed to generate changelog: '' @ error_text error)))
                    (\<lambda>_. ret (''Version '' @ version')))))"

definition createGitTag ::
  "World \<Rightarrow> string \<Rightarrow> string \<Rightarrow> string \<Rightarrow> string \<Rightarrow> string \<Rightarrow> string action" where
  "createGitTag w owner repo tagName message' sha' =
     bind (request (CreateTag owner repo tagName message' sha' ''commit'')
             (createTag w owner repo tagName message' sha' ''commit'')) (\<lambda>response.
     bind (emit (Info (''Created tag object: '' @ tag response))) (\<lambda>_.
     ret (object_sha response)))"

definition createGitReference ::
  "World \<Rightarrow> string \<Rightarrow> string \<Rightarrow> string \<Rightarrow> string \<Rightarrow> Reference action" where
  "createGitReference w owner repo tagName sha' =
     bind (request (CreateRef owner repo (''refs/tags/'' @ tagName) sha')
             (createRef w owner repo (''refs/tags/'' @ tagName) sha')) (\<lambda>response.
     bind (emit (Info (''Created reference: '' @ ref response @ '' at '' @ url response))) (\<lambda>_.
     ret \<lparr> ref = ref response, url = url response \<rparr>))"

section \<open>Orchestration\<close>

text \<open>
  \<open>createVersionTag\<close>, step by step as in the source. \<open>getOctokit(token)\<close> only builds
  the client: it sends nothing, so it leaves no event; the client's answers are those of
  the world. Reading \<open>context.repo\<close> can throw.
\<close>

definition createVersionTag :: "World \<Rightarrow> unit action" where
  "createVersionTag w =
     bind (getEnvironmentVariables w) (\<lambda>(token, workspace, sha').
     let inputs = getActionInputs w in
     bind (loadPubspec w workspace (packageRoot inputs)) (\<lambda>pubspec.
     let version' = version pubspec in
     bind (emit (Info (''Detected version: '' @ version'))) (\<lambda>_.
     bind (emit (SetOutput ''version'' version')) (\<lambda>_.
     bind (context_repo w, []) (\<lambda>(owner, repo).
     bind (emit (Debug (''Repository: '' @ owner @ ''/'' @ repo))) (\<lambda>_.
     bind (fetchExistingTags w owner repo) (\<lambda>existingTags.
     let tagName = tagPrefix inputs @ version' @ tagSuffix inputs in
     if tagExists existingTags tagName then
       bind (emit (Warning (''Tag '' @ [CHR 0x22] @ tagName @ [CHR 0x22] @ '' already exists. Skipping tag creation.''))) (\<lambda>_.
       setActionOutputs (no_outputs \<lparr> tagname := Some [] \<rparr>))
     else
       bind (getTagMessage w owner repo (tagMessage inputs) existingTags
               (changelogStructure inputs) version') (\<lambda>tagMessage'.
       bind (createGitTag w owner repo tagName tagMessage' sha') (\<lambda>tagSha.
       bind (createGitReference w owner repo tagName tagSha) (\<lambda>reference.
       bind (setActionOutputs
               \<lparr> tagname = Some tagName, tagsha = Some tagSha, taguri = Some (url reference),
                 tagmessage = Some tagMessage', tagref = Some (ref reference) \<rparr>) (\<lambda>_.
       emit (Info (''Successfully created tag: '' @ tagName)))))))))))))"

text \<open>\<open>run\<close>: every throw of \<open>createVersionTag\<close> ends in the one \<open>catch\<close>.\<close>

definition run :: "World \<Rightarrow> unit action" where
  "run w =
     try_catch (createVersionTag w)
       (\<lambda>error.
          bind (emit (SetFailed (error_text error))) (\<lambda>_.
          setActionOutputs no_outputs))"

section \<open>The template, as the specification describes it\<close>

text \<open>
  The four recognised tokens, their texts, and the value the specification gives to each
  for a commit: the full message; the message up to, not including, its first line feed;
  the author's login, or the empty string without one; the commit's hash.
\<close>

datatype token = TMessage | TMessageHeadline | TAuthor | TSha

fun token_text :: "token \<Rightarrow> string" where
  "token_text TMessage = ''{{message}}''"
| "token_text TMessageHeadline = ''{{messageHeadline}}''"
| "token_text TAuthor = ''{{author}}''"
| "token_text TSha = ''{{sha}}''"

fun token_value :: "Commit \<Rightarrow> token \<Rightarrow> string" where
  "token_value c TMessage = message (commit c)"
| "token_value c TMessageHeadline = takeWhile (\<lambda>x. x \<noteq> CHR 0x0A) (message (commit c))"
| "token_value c TAuthor = (case author c of Some (SimpleUser l) \<Rightarrow> l | _ \<Rightarrow> [])"
| "token_value c TSha = sha c"

definition token_free :: "string \<Rightarrow> bool" where
  "token_free l = list_all (\<lambda>k. \<not> sublist (token_text k) l) [TMessage, TMessageHeadline, TAuthor, TSha]"


text \<open>
  A template read as a literal, then tokens each followed by a literal; and what the
  specification says the formatter makes of it: each token replaced by its value, each
  literal kept.
\<close>

definition template_of :: "string \<Rightarrow> (token \<times> string) list \<Rightarrow> string" where
  "template_of l0 kls = l0 @ concat (map (\<lambda>(k, l). token_text k @ l) kls)"

definition rendered :: "Commit \<Rightarrow> string \<Rightarrow> (token \<times> string) list \<Rightarrow> string" where
  "rendered c l0 kls = l0 @ concat (map (\<lambda>(k, l). token_value c k @ l) kls)"

definition literals_token_free :: "string \<Rightarrow> (token \<times> string) list \<Rightarrow> bool" where
  "literals_token_free l0 kls = (token_free l0 \<and> list_all (\<lambda>(k, l). token_free l) kls)"

section \<open>Observations on a run\<close>

text \<open>
  The requests that create something on the host; the report of a failure; the value an
  output has at the end (the last one set); and the texts a run writes to the log or
  reports as its failure.
\<close>

fun is_creation :: "event \<Rightarrow> bool" where
  "is_creation (CreateTag owner repo t m ob ty) = True"
| "is_creation (CreateRef owner repo r s) = True"
| "is_creation ev = False"

fun is_failure :: "event \<Rightarrow> bool" where
  "is_failure (SetFailed m) = True"
| "is_failure ev = False"

fun sets_output :: "string \<Rightarrow> event \<Rightarrow> string option" where
  "sets_output key (SetOutput k v) = (if k = key then Some v else None)"
| "sets_output key ev = None"

fun output_value :: "event list \<Rightarrow> string \<Rightarrow> string option" where
  "output_value [] key = None"
| "output_value (ev # tr) key =
     (case output_value tr key of
        Some v \<Rightarrow> Some v
      | None \<Rightarrow> sets_output key ev)"

fun diagnostic :: "event \<Rightarrow> string option" where
  "diagnostic (Debug m) = Some m"
| "diagnostic (Info m) = Some m"
| "diagnostic (Warning m) = Some m"
| "diagnostic (SetFailed m) = Some m"
| "diagnostic ev = None"

definition diagnostics :: "event list \<Rightarrow> string list" where
  "diagnostics tr = List.map_filter diagnostic tr"

section \<open>An example invocation\<close>

text \<open>
  A repository \<open>octo/app\<close> whose manifest has version \<open>2.3.4\<close>, with the prefix
  \<open>v\<close> and one earlier tag \<open>v2.3.3\<close>. The host refuses the comparison, creates the tag
  object (hash \<open>9f3c1e\<close>) and refuses the reference.
\<close>

definition world0 :: World where
  "world0 =
     \<lparr> env_GITHUB_TOKEN = Some ''t0ken'',
       env_INPUT_GITHUB_TOKEN = None,
       env_GITHUB_WORKSPACE = Some ''/ws'',
       env_GITHUB_SHA = Some ''c0ffee'',
       getInput = (\<lambda>k. if k = ''tag_prefix'' then ''v'' else []),
       path_join = (\<lambda>a b c. a @ ''/'' @ c),
       existsSync = (\<lambda>p. True),
       readFileSync = (\<lambda>p. Inr ''version: 2.3.4''),
       yaml_load = (\<lambda>s. Inr (YObject [(''version'', YString ''2.3.4'')])),
       context_repo = Inr (''octo'', ''app''),
       listTags = (\<lambda>owner repo n. Inr [\<lparr>name = ''v2.3.3''\<rparr>]),
       compareCommits = (\<lambda>owner repo b h. Inl (Error ''Not Found'')),
       createTag = (\<lambda>owner repo t m ob ty. Inr \<lparr>tag = t, object_sha = ''9f3c1e''\<rparr>),
       createRef = (\<lambda>owner repo r s. Inl (Error ''Reference already exists'')) \<rparr>"

section \<open>Properties\<close>

lemma some_iff: "some p xs \<longleftrightarrow> (\<exists>x \<in> set xs. p x)"
  by (induction xs) auto

text \<open>
  C8. \<open>tagExists\<close> is an exact membership test over the tag names: it is true iff the
  candidate is equal, character for character, to the name of some tag of the list. In
  particular it is true of \<open>v1.0.0\<close> against the list holding \<open>v1.0.0\<close>, and false of
  \<open>V1.0.0\<close> against it.
\<close>

theorem tagExists_exact_membership:
  "(tagExists tags tagName \<longleftrightarrow> tagName \<in> set (map name tags))
   \<and> tagExists [\<lparr>name = ''v1.0.0''\<rparr>] ''v1.0.0''
   \<and> \<not> tagExists [\<lparr>name = ''v1.0.0''\<rparr>] ''V1.0.0''"
  by (auto simp: tagExists_def some_iff)

subsection \<open>Scanning a template\<close>

lemma token_free_iff: "token_free l \<longleftrightarrow> (\<forall>k. \<not> sublist (token_text k) l)"
proof
  assume "token_free l"
  then show "\<forall>k. \<not> sublist (token_text k) l"
    unfolding token_free_def by (intro allI, case_tac k) simp_all
next
  assume "\<forall>k. \<not> sublist (token_text k) l"
  then show "token_free l"
    unfolding token_free_def by simp
qed

lemma exec_at_None_iff: "exec_at s = None \<longleftrightarrow> (\<forall>k. \<not> prefix (token_text k) s)"
proof
  assume a: "exec_at s = None"
  show "\<forall>k. \<not> prefix (token_text k) s"
  proof
    fix k
    show "\<not> prefix (token_text k) s"
      using a by (cases k) (simp_all add: exec_at_def split: if_splits)
  qed
next
  assume a: "\<forall>k. \<not> prefix (token_text k) s"
  have "\<not> prefix (token_text TMessage) s" "\<not> prefix (token_text TMessageHeadline) s"
    "\<not> prefix (token_text TAuthor) s" "\<not> prefix (token_text TSha) s"
    using a by blast+
  then show "exec_at s = None" by (simp add: exec_at_def)
qed

lemma split_nonempty: "split sep s \<noteq> []"
  by (induction s) (auto split: list.splits)

lemma first_piece_split: "first_piece (split sep s) = takeWhile (\<lambda>x. x \<noteq> sep) s"
  using split_nonempty[of sep] by (induction s) (auto split: list.splits)

lemma straddle_gen:
  assumes "prefix (a # a # body) (l @ a # a # r)" "l \<noteq> []" "a \<notin> set body" "body \<noteq> []"
  shows "prefix (a # a # body) l"
proof -
  from assms(1) consider "prefix (a # a # body) l"
    | us where "a # a # body = l @ us" "prefix us (a # a # r)"
    by (auto simp: prefix_append)
  then show ?thesis
  proof cases
    case 1 then show ?thesis .
  next
    case 2
    show ?thesis
    proof (cases us)
      case Nil
      with 2 show ?thesis by simp
    next
      case (Cons u us')
      from 2(2) Cons have u: "u = a" by simp
      from assms(2) obtain y l1 where l: "l = y # l1" by (cases l) auto
      from 2(1) l have "a # body = l1 @ us" by auto
      with Cons u have e: "a # body = l1 @ a # us'" by simp
      show ?thesis
      proof (cases l1)
        case Nil
        with e have "body = us'" by simp
        with 2(2) Cons u assms(4) have "hd body = a" by (cases body) auto
        with assms(3,4) show ?thesis by (cases body) auto
      next
        case (Cons z l2)
        with e have "body = l2 @ a # us'" by simp
        with assms(3) show ?thesis by simp
      qed
    qed
  qed
qed

lemma token_text_shape: "\<exists>body. token_text k = CHR ''{'' # CHR ''{'' # body \<and> CHR ''{'' \<notin> set body \<and> body \<noteq> []"
  by (cases k) simp_all

lemma straddle:
  assumes "prefix (token_text t) (l @ token_text k @ r)" "l \<noteq> []"
  shows "prefix (token_text t) l"
proof -
  obtain b1 where b1: "token_text t = CHR ''{'' # CHR ''{'' # b1" "CHR ''{'' \<notin> set b1" "b1 \<noteq> []"
    using token_text_shape by blast
  obtain b2 where b2: "token_text k = CHR ''{'' # CHR ''{'' # b2"
    using token_text_shape by blast
  from assms(1) have "prefix (CHR ''{'' # CHR ''{'' # b1) (l @ CHR ''{'' # CHR ''{'' # (b2 @ r))"
    by (simp add: b1 b2)
  from straddle_gen[OF this assms(2) b1(2) b1(3)] show ?thesis by (simp add: b1)
qed

lemma replace_all_literal:
  "token_free l \<Longrightarrow> replace_all f l = l"
proof (induction l)
  case Nil then show ?case by simp
next
  case (Cons x l)
  have tf: "token_free l" using Cons.prems by (auto simp: token_free_iff sublist_Cons_right)
  have "exec_at (x # l) = None"
    using Cons.prems by (auto simp: exec_at_None_iff token_free_iff)
  then show ?case using Cons.IH[OF tf] by simp
qed

lemma replace_all_token:
  "replace_all (replacer c) (token_text k @ r) = token_value c k @ replace_all (replacer c) r"
proof (cases k)
  case TMessage
  then show ?thesis by (simp add: exec_at_def replacer_def truthy_def)
next
  case TMessageHeadline
  then show ?thesis by (simp add: exec_at_def replacer_def truthy_def first_piece_split)
next
  case TAuthor
  then show ?thesis
    by (cases "author c" rule: author_login.cases) (simp_all add: exec_at_def replacer_def truthy_def)
next
  case TSha
  then show ?thesis by (simp add: exec_at_def replacer_def truthy_def)
qed


lemma exec_at_prefix: "exec_at s = Some (m, g) \<Longrightarrow> prefix m s"
  by (auto simp: exec_at_def split: if_splits)

lemma exec_at_append:
  assumes "l \<noteq> []"
  shows "exec_at (l @ token_text k @ r) = exec_at l"
proof -
  have "prefix (token_text t) (l @ token_text k @ r) \<longleftrightarrow> prefix (token_text t) l" for t
  proof
    assume "prefix (token_text t) (l @ token_text k @ r)"
    then show "prefix (token_text t) l" using assms by (rule straddle)
  next
    assume "prefix (token_text t) l"
    then show "prefix (token_text t) (l @ token_text k @ r)" by (rule prefix_prefix)
  qed
  from this[of TMessage] this[of TMessageHeadline] this[of TAuthor] this[of TSha]
  show ?thesis by (simp add: exec_at_def)
qed

lemma replace_all_append_token:
  "replace_all f (l @ token_text k @ r) = replace_all f l @ replace_all f (token_text k @ r)"
proof (induction f l rule: replace_all.induct)
  case (1 f)
  show ?case by simp
next
  case (2 f x xs)
  have ex: "exec_at ((x # xs) @ token_text k @ r) = exec_at (x # xs)"
    by (rule exec_at_append) simp
  show ?case
  proof (cases "exec_at (x # xs)")
    case None
    with 2(1)[OF None] ex show ?thesis by simp
  next
    case (Some mg)
    obtain m g1 g2 g3 g4 where mg: "mg = (m, g1, g2, g3, g4)" by (cases mg) auto
    from Some mg have "prefix m (x # xs)" by (auto dest: exec_at_prefix)
    then have len: "length m \<le> length (x # xs)" by (rule prefix_length_le)
    have ih: "replace_all f (drop (length m) (x # xs) @ token_text k @ r) =
              replace_all f (drop (length m) (x # xs)) @ replace_all f (token_text k @ r)"
      using 2(2)[OF Some, of m "(g1, g2, g3, g4)" g1 "(g2, g3, g4)" g2 "(g3, g4)" g3 g4] mg by simp
    have "replace_all f ((x # xs) @ token_text k @ r) =
          f m g1 g2 g3 g4 @ replace_all f (drop (length m) ((x # xs) @ token_text k @ r))"
      using ex Some mg by simp
    also have "drop (length m) ((x # xs) @ token_text k @ r) = drop (length m) (x # xs) @ token_text k @ r"
      using len by (simp del: append.simps)
    finally show ?thesis using ih Some mg by simp
  qed
qed

lemma formatCommit_token:
  "formatCommit c (l @ token_text k @ r) = formatCommit c l @ token_value c k @ formatCommit c r"
  unfolding formatCommit_def by (simp add: replace_all_append_token replace_all_token)

lemma formatCommit_literal: "token_free l \<Longrightarrow> formatCommit c l = l"
  unfolding formatCommit_def by (rule replace_all_literal)

lemma formatCommit_template:
  "literals_token_free l0 kls \<Longrightarrow> formatCommit c (template_of l0 kls) = rendered c l0 kls"
proof (induction kls arbitrary: l0)
  case Nil
  then show ?case by (simp add: template_of_def rendered_def literals_token_free_def formatCommit_literal)
next
  case (Cons kl kls)
  obtain k l where kl: "kl = (k, l)" by (cases kl) auto
  from Cons.prems kl have tf0: "token_free l0" and rest: "literals_token_free l kls"
    by (simp_all add: literals_token_free_def)
  have "template_of l0 (kl # kls) = l0 @ token_text k @ template_of l kls"
    by (simp add: template_of_def kl)
  then have "formatCommit c (template_of l0 (kl # kls)) = l0 @ token_value c k @ rendered c l kls"
    using Cons.IH[OF rest] by (simp add: formatCommit_token formatCommit_literal[OF tf0])
  then show ?case by (simp add: rendered_def kl)
qed

lemma token_free_Nil: "token_free []"
  by (simp add: token_free_def)

lemma template_decomposition:
  "\<exists>l0 kls. s = template_of l0 kls \<and> literals_token_free l0 kls"
proof (induction s rule: length_induct)
  case (1 s)
  show ?case
  proof (cases s)
    case Nil
    have "s = template_of [] [] \<and> literals_token_free [] []"
      by (simp add: Nil template_of_def literals_token_free_def token_free_Nil)
    then show ?thesis by blast
  next
    case (Cons x xs)
    show ?thesis
    proof (cases "exec_at s")
      case None
      from 1 Cons obtain l0 kls where d: "xs = template_of l0 kls" "literals_token_free l0 kls"
        by auto
      have "token_free (x # l0)"
        unfolding token_free_iff
      proof (intro allI notI)
        fix t assume "sublist (token_text t) (x # l0)"
        then consider "prefix (token_text t) (x # l0)" | "sublist (token_text t) l0"
          by (auto simp: sublist_Cons_right)
        then show False
        proof cases
          case 1
          then have "prefix (token_text t) ((x # l0) @ concat (map (\<lambda>(k, l). token_text k @ l) kls))"
            by (rule prefix_prefix)
          then have "prefix (token_text t) s"
            using Cons d(1) by (simp add: template_of_def)
          with None show False by (simp add: exec_at_None_iff)
        next
          case 2
          with d(2) show False by (simp add: literals_token_free_def token_free_iff)
        qed
      qed
      with d have "s = template_of (x # l0) kls \<and> literals_token_free (x # l0) kls"
        by (simp add: Cons template_of_def literals_token_free_def)
      then show ?thesis by blast
    next
      case (Some mg)
      then obtain k where "prefix (token_text k) s"
        using exec_at_None_iff[of s] by auto
      then obtain rest where r: "s = token_text k @ rest" by (auto simp: prefix_def)
      have "token_text k \<noteq> []" by (cases k) simp_all
      with r have "length rest < length s" by simp
      with 1 obtain l0 kls where d: "rest = template_of l0 kls" "literals_token_free l0 kls"
        by blast
      have "s = template_of [] ((k, l0) # kls) \<and> literals_token_free [] ((k, l0) # kls)"
        using d r by (simp add: template_of_def literals_token_free_def token_free_Nil)
      then show ?thesis by blast
    qed
  qed
qed

text \<open>
  C6. Every template is a literal followed by tokens, each followed by a literal, where no
  literal holds the text of a token; and for every commit the formatter turns such a
  template into the same literals, unchanged, with each token replaced by its value.
  Text that only looks like a token (\<open>{{foo}}\<close>, \<open>{message}\<close>) is part of a literal, so
  it is copied as it is.
\<close>

theorem formatCommit_substitutes_exactly:
  "(\<exists>l0 kls. structure = template_of l0 kls \<and> literals_token_free l0 kls)
   \<and> (literals_token_free l0 kls \<longrightarrow> formatCommit c (template_of l0 kls) = rendered c l0 kls)"
  using template_decomposition formatCommit_template by blast

text \<open>The theorem at a template with two tokens and token-like literal text.\<close>

theorem formatCommit_substitutes_exactly_witness:
  "literals_token_free ''- '' [(TSha, '' {{foo}} {message} ''), (TMessage, ''!'')]
   \<and> formatCommit \<lparr>sha = ''abc'', commit = \<lparr>message = ''fix''\<rparr>, author = None\<rparr>
        ''- {{sha}} {{foo}} {message} {{message}}!'' = ''- abc {{foo}} {message} fix!''"
proof -
  have h: "literals_token_free ''- '' [(TSha, '' {{foo}} {message} ''), (TMessage, ''!'')]"
    by (simp add: literals_token_free_def token_free_def sublist_code)
  show ?thesis
    using h formatCommit_substitutes_exactly
      [of "[]" "''- ''" "[(TSha, '' {{foo}} {message} ''), (TMessage, ''!'')]"
          "\<lparr>sha = ''abc'', commit = \<lparr>message = ''fix''\<rparr>, author = None\<rparr>"]
    by (simp add: template_of_def rendered_def)
qed

text \<open>
  C7. For every commit, \<open>{{messageHeadline}}\<close> is replaced by the commit message up to,
  not including, its first line feed; the message \<open>fix: bug\<close>, two line feeds,
  \<open>Details here\<close> gives \<open>fix: bug\<close>. \<open>{{author}}\<close> is replaced by the empty string
  when the commit's author is \<open>null\<close> or an object without a login.
\<close>

theorem formatCommit_messageHeadline_author:
  "formatCommit c (''{{messageHeadline}}'' @ r) =
     takeWhile (\<lambda>x. x \<noteq> CHR 0x0A) (message (commit c)) @ formatCommit c r
   \<and> formatCommit \<lparr>sha = s, commit = \<lparr>message = ''fix: bug'' @ [CHR 0x0A, CHR 0x0A] @ ''Details here''\<rparr>, author = a\<rparr>
        ''{{messageHeadline}}'' = ''fix: bug''
   \<and> formatCommit (c\<lparr>author := None\<rparr>) ''{{author}}'' = []
   \<and> formatCommit (c\<lparr>author := Some EmptyObject\<rparr>) ''{{author}}'' = []"
proof -
  have a: "formatCommit c' (token_text k @ r') = token_value c' k @ formatCommit c' r'" for c' k r'
    using formatCommit_token[of c' "[]" k r'] by (simp add: formatCommit_def)
  show ?thesis
    using a[of c TMessageHeadline r] a[of _ TMessageHeadline "[]"] a[of _ TAuthor "[]"]
    by (simp add: formatCommit_def)
qed

text \<open>
  C10. Substitution is a single pass: around any token of the template, the output is the
  formatted text before it, then the token's value exactly as the commit holds it, then
  the formatted text after it; the value is not scanned. A message holding \<open>{{sha}}\<close>
  keeps that text in the output, while \<open>{{sha}}\<close> of the template itself is replaced.
\<close>

theorem formatCommit_single_pass:
  "formatCommit c (l @ token_text k @ r) = formatCommit c l @ token_value c k @ formatCommit c r
   \<and> formatCommit \<lparr>sha = ''abc'', commit = \<lparr>message = ''see {{sha}}''\<rparr>, author = None\<rparr>
        ''{{message}} ({{sha}})'' = ''see {{sha}} (abc)''"
proof -
  have "formatCommit \<lparr>sha = ''abc'', commit = \<lparr>message = ''see {{sha}}''\<rparr>, author = None\<rparr>
        ''{{message}} ({{sha}})'' = ''see {{sha}} (abc)''"
    by (simp add: formatCommit_def exec_at_def replacer_def truthy_def)
  then show ?thesis using formatCommit_token by blast
qed

subsection \<open>Sequencing\<close>

lemma bind_ret [simp]: "bind (ret a) f = f a"
  by (simp add: bind_def ret_def split: prod.splits)

lemma bind_throw [simp]: "bind (throw e) f = throw e"
  by (simp add: bind_def throw_def)

lemma bind_emit [simp]: "bind (emit ev) f = (fst (f ()), ev # snd (f ()))"
  by (simp add: bind_def emit_def split: prod.splits)

lemma bind_Inr [simp]: "bind (Inr a, tr) f = (fst (f a), tr @ snd (f a))"
  by (simp add: bind_def split: prod.splits)

lemma bind_Inl [simp]: "bind (Inl e, tr) f = (Inl e, tr)"
  by (simp add: bind_def)

lemma try_catch_Inr [simp]: "try_catch (Inr a, tr) h = (Inr a, tr)"
  by (simp add: try_catch_def)

lemma try_catch_Inl [simp]: "try_catch (Inl e, tr) h = (fst (h e), tr @ snd (h e))"
  by (simp add: try_catch_def split: prod.splits)

lemma trim_nonempty: "trim s \<noteq> [] \<Longrightarrow> s \<noteq> []"
  by (auto simp: trim_def)

subsection \<open>Tag Message Resolver and Changelog Generator\<close>

text \<open>
  C4. For every explicit message that is not empty after trimming, whatever the tags, the
  template and the version, \<open>getTagMessage\<close> returns that message as it is and sends no
  request: the Changelog Generator is not invoked.
\<close>

theorem getTagMessage_explicit:
  "trim providedMessage \<noteq> [] \<Longrightarrow>
   getTagMessage w owner repo providedMessage existingTags structure v = (Inr providedMessage, [])"
  by (auto simp: getTagMessage_def truthy_def ret_def dest: trim_nonempty)

text \<open>
  The theorem at the message \<open>hello\<close>, with an earlier tag present.
\<close>

theorem getTagMessage_explicit_witness:
  "trim ''hello'' \<noteq> []
   \<and> getTagMessage world0 ''octo'' ''app'' ''hello'' [\<lparr>name = ''v2.3.3''\<rparr>] ''{{sha}}'' ''2.3.4''
       = (Inr ''hello'', [])"
proof -
  have h: "trim ''hello'' \<noteq> []" by (simp add: trim_def is_space_def)
  show ?thesis
    using h getTagMessage_explicit[OF h, of world0 "''octo''" "''app''" "[\<lparr>name = ''v2.3.3''\<rparr>]" "''{{sha}}''" "''2.3.4''"]
    by simp
qed

text \<open>
  C5. With no explicit message and no existing tag, \<open>getTagMessage\<close> returns the text
  \<open>Version\<close>, a space and the version, for every version and template, and sends no
  request; for version \<open>1.0.0\<close> this is \<open>Version 1.0.0\<close>.
\<close>

theorem getTagMessage_no_tags:
  "getTagMessage w owner repo [] [] structure v = (Inr (''Version '' @ v), [])
   \<and> getTagMessage w owner repo [] [] structure ''1.0.0'' = (Inr ''Version 1.0.0'', [])"
  by (simp add: getTagMessage_def truthy_def ret_def)

lemma join_append_sep:
  "xs \<noteq> [] \<Longrightarrow> join sep xs @ sep = concat (map (\<lambda>x. x @ sep) xs)"
  by (induction sep xs rule: join.induct) simp_all

lemma generateChangelog_Inr:
  "compareCommits w owner repo base head = Inr commits \<Longrightarrow>
   generateChangelog w owner repo base head structure =
     (Inr (join [CHR 0x0A] (map (\<lambda>c. formatCommit c structure) commits)),
      [CompareCommits owner repo base head])"
  by (simp add: generateChangelog_def request_def ret_def)

lemma generateChangelog_Inl:
  "compareCommits w owner repo base head = Inl e \<Longrightarrow>
   generateChangelog w owner repo base head structure = (Inl e, [CompareCommits owner repo base head])"
  by (simp add: generateChangelog_def request_def)

lemma getTagMessage_cases:
  "getTagMessage w owner repo pm tags structure v =
     (if pm \<noteq> [] then (Inr pm, [])
      else case tags of
        [] \<Rightarrow> (Inr (''Version '' @ v), [])
      | t # ts \<Rightarrow>
          (case compareCommits w owner repo (name t) ''main'' of
             Inl e \<Rightarrow> (Inr (''Version '' @ v),
                       [CompareCommits owner repo (name t) ''main'',
                        Warning (''Failed to generate changelog: '' @ error_text e)])
           | Inr commits \<Rightarrow>
               (Inr (let changelog = join [CHR 0x0A] (map (\<lambda>c. formatCommit c structure) commits)
                     in if changelog \<noteq> [] then changelog else ''Version '' @ v),
                [CompareCommits owner repo (name t) ''main''])))"
  by (auto simp: getTagMessage_def truthy_def ret_def or_str_def generateChangelog_Inr
        generateChangelog_Inl Let_def split: list.splits sum.splits)


text \<open>
  C9. When the comparison answers with a list of commits, \<open>generateChangelog\<close> sends that
  one request and returns the commits formatted with the one template, in the order
  answered, separated by a single line feed with none after the last: nothing for no
  commit, and otherwise the text that, with one more line feed, is each formatted commit
  followed by a line feed.
\<close>

theorem generateChangelog_maps_and_joins:
  assumes "compareCommits w owner repo base head = Inr commits"
  shows "\<exists>out. generateChangelog w owner repo base head structure =
                 (Inr out, [CompareCommits owner repo base head])
          \<and> (if commits = [] then out = []
             else out @ [CHR 0x0A] = concat (map (\<lambda>c. formatCommit c structure @ [CHR 0x0A]) commits))"
proof -
  let ?out = "join [CHR 0x0A] (map (\<lambda>c. formatCommit c structure) commits)"
  have "commits \<noteq> [] \<Longrightarrow> ?out @ [CHR 0x0A] = concat (map (\<lambda>c. formatCommit c structure @ [CHR 0x0A]) commits)"
    using join_append_sep[of "map (\<lambda>c. formatCommit c structure) commits" "[CHR 0x0A]"]
    by (simp add: comp_def)
  then show ?thesis
    using generateChangelog_Inr[OF assms, of "structure"] by auto
qed

text \<open>
  The theorem at two commits.
\<close>

theorem generateChangelog_maps_and_joins_witness:
  "generateChangelog
     (world0 \<lparr> compareCommits := (\<lambda>owner repo b h.
        Inr [\<lparr>sha = ''a1'', commit = \<lparr>message = ''one''\<rparr>, author = None\<rparr>,
             \<lparr>sha = ''b2'', commit = \<lparr>message = ''two''\<rparr>, author = Some (SimpleUser ''kim'')\<rparr>]) \<rparr>)
     ''octo'' ''app'' ''v2.3.3'' ''main'' ''{{sha}} {{message}} {{author}}''
   = (Inr (''a1 one '' @ [CHR 0x0A] @ ''b2 two kim''), [CompareCommits ''octo'' ''app'' ''v2.3.3'' ''main''])"
proof -
  let ?cs = "[\<lparr>sha = ''a1'', commit = \<lparr>message = ''one''\<rparr>, author = None\<rparr>,
             \<lparr>sha = ''b2'', commit = \<lparr>message = ''two''\<rparr>, author = Some (SimpleUser ''kim'')\<rparr>]"
  let ?w = "world0 \<lparr> compareCommits := (\<lambda>owner repo b h. Inr ?cs) \<rparr>"
  have h: "compareCommits ?w ''octo'' ''app'' ''v2.3.3'' ''main'' = Inr ?cs"
    by (simp add: world0_def)
  have f: "formatCommit \<lparr>sha = ''a1'', commit = \<lparr>message = ''one''\<rparr>, author = None\<rparr>
             ''{{sha}} {{message}} {{author}}'' = ''a1 one ''"
          "formatCommit \<lparr>sha = ''b2'', commit = \<lparr>message = ''two''\<rparr>, author = Some (SimpleUser ''kim'')\<rparr>
             ''{{sha}} {{message}} {{author}}'' = ''b2 two kim''"
    by (simp_all add: formatCommit_def exec_at_def replacer_def truthy_def)
  show ?thesis
    using generateChangelog_maps_and_joins[OF h, of "''{{sha}} {{message}} {{author}}''"]
    by (auto simp: f)
qed


text \<open>
  C1. \<open>getTagMessage\<close> always returns, and what it returns is never empty, whatever the
  explicit message, the tags, the template and the version. With no explicit message and
  a tag present: when the Changelog Generator throws, the error is caught, a warning is
  logged and the result is \<open>Version\<close>, a space and the version; when it returns the empty
  string, the result is the same text.
\<close>

theorem getTagMessage_never_empty:
  "(\<exists>m. fst (getTagMessage w owner repo pm tags structure v) = Inr m \<and> m \<noteq> [])
   \<and> (generateChangelog w owner repo (name t) ''main'' structure = (Inl e, tr) \<longrightarrow>
        getTagMessage w owner repo [] (t # ts) structure v =
          (Inr (''Version '' @ v), tr @ [Warning (''Failed to generate changelog: '' @ error_text e)]))
   \<and> (generateChangelog w owner repo (name t) ''main'' structure = (Inr [], tr) \<longrightarrow>
        getTagMessage w owner repo [] (t # ts) structure v = (Inr (''Version '' @ v), tr))"
proof (intro conjI impI)
  show "\<exists>m. fst (getTagMessage w owner repo pm tags structure v) = Inr m \<and> m \<noteq> []"
    by (simp add: getTagMessage_cases Let_def split: list.splits sum.splits)
next
  assume "generateChangelog w owner repo (name t) ''main'' structure = (Inl e, tr)"
  then show "getTagMessage w owner repo [] (t # ts) structure v =
          (Inr (''Version '' @ v), tr @ [Warning (''Failed to generate changelog: '' @ error_text e)])"
    by (simp add: getTagMessage_def truthy_def ret_def)
next
  assume "generateChangelog w owner repo (name t) ''main'' structure = (Inr [], tr)"
  then show "getTagMessage w owner repo [] (t # ts) structure v = (Inr (''Version '' @ v), tr)"
    by (simp add: getTagMessage_def truthy_def ret_def or_str_def)
qed

text \<open>
  The theorem on a host that refuses the comparison, and on one that answers it with no
  commit.
\<close>

theorem getTagMessage_never_empty_witness:
  "generateChangelog world0 ''octo'' ''app'' ''v2.3.3'' ''main'' ''{{sha}}'' =
     (Inl (Error ''Not Found''), [CompareCommits ''octo'' ''app'' ''v2.3.3'' ''main''])
   \<and> getTagMessage world0 ''octo'' ''app'' [] [\<lparr>name = ''v2.3.3''\<rparr>] ''{{sha}}'' ''2.3.4'' =
       (Inr ''Version 2.3.4'',
        [CompareCommits ''octo'' ''app'' ''v2.3.3'' ''main'',
         Warning ''Failed to generate changelog: Not Found''])
   \<and> generateChangelog (world0 \<lparr> compareCommits := (\<lambda>owner repo b h. Inr []) \<rparr>)
        ''octo'' ''app'' ''v2.3.3'' ''main'' ''{{sha}}'' =
     (Inr [], [CompareCommits ''octo'' ''app'' ''v2.3.3'' ''main''])
   \<and> getTagMessage (world0 \<lparr> compareCommits := (\<lambda>owner repo b h. Inr []) \<rparr>)
        ''octo'' ''app'' [] [\<lparr>name = ''v2.3.3''\<rparr>] ''{{sha}}'' ''2.3.4'' =
       (Inr ''Version 2.3.4'', [CompareCommits ''octo'' ''app'' ''v2.3.3'' ''main''])"
proof -
  let ?w = "world0 \<lparr> compareCommits := (\<lambda>owner repo b h. Inr []) \<rparr>"
  have a: "generateChangelog world0 ''octo'' ''app'' (name \<lparr>name = ''v2.3.3''\<rparr>) ''main'' ''{{sha}}'' =
     (Inl (Error ''Not Found''), [CompareCommits ''octo'' ''app'' ''v2.3.3'' ''main''])"
    by (simp add: generateChangelog_def request_def world0_def)
  have b: "generateChangelog ?w ''octo'' ''app'' (name \<lparr>name = ''v2.3.3''\<rparr>) ''main'' ''{{sha}}'' =
     (Inr [], [CompareCommits ''octo'' ''app'' ''v2.3.3'' ''main''])"
    by (simp add: generateChangelog_def request_def world0_def ret_def)
  show ?thesis
    using a b
      getTagMessage_never_empty[of world0 "''octo''" "''app''" "[]" "[]" "''{{sha}}''" "''2.3.4''"
        "\<lparr>name = ''v2.3.3''\<rparr>" "Error ''Not Found''" "[CompareCommits ''octo'' ''app'' ''v2.3.3'' ''main'']" "[]"]
      getTagMessage_never_empty[of ?w "''octo''" "''app''" "[]" "[]" "''{{sha}}''" "''2.3.4''"
        "\<lparr>name = ''v2.3.3''\<rparr>" "Error ''Not Found''" "[CompareCommits ''octo'' ''app'' ''v2.3.3'' ''main'']" "[]"]
    by simp
qed

subsection \<open>The whole invocation\<close>

lemma createVersionTag_prefix:
  assumes "getEnvironmentVariables w = (Inr (token, workspace, sha0), tr0)"
    and "loadPubspec w workspace (packageRoot (getActionInputs w)) = (Inr pubspec, tr1)"
    and "context_repo w = Inr (owner, repo)"
    and "fetchExistingTags w owner repo = (Inr existingTags, tr2)"
  shows "createVersionTag w =
     (let tagName = tagPrefix (getActionInputs w) @ version pubspec @ tagSuffix (getActionInputs w);
          k = (if tagExists existingTags tagName then
                 bind (emit (Warning (''Tag '' @ [CHR 0x22] @ tagName @ [CHR 0x22] @ '' already exists. Skipping tag creation.''))) (\<lambda>_.
                 setActionOutputs (no_outputs \<lparr> tagname := Some [] \<rparr>))
               else
                 bind (getTagMessage w owner repo (tagMessage (getActionInputs w)) existingTags
                         (changelogStructure (getActionInputs w)) (version pubspec)) (\<lambda>tagMessage'.
                 bind (createGitTag w owner repo tagName tagMessage' sha0) (\<lambda>tagSha.
                 bind (createGitReference w owner repo tagName tagSha) (\<lambda>reference.
                 bind (setActionOutputs
                         \<lparr> tagname = Some tagName, tagsha = Some tagSha, taguri = Some (url reference),
                           tagmessage = Some tagMessage', tagref = Some (ref reference) \<rparr>) (\<lambda>_.
                 emit (Info (''Successfully created tag: '' @ tagName)))))))
      in (fst k,
          tr0 @ tr1 @ [Info (''Detected version: '' @ version pubspec),
                 SetOutput ''version'' (version pubspec),
                 Debug (''Repository: '' @ owner @ ''/'' @ repo)] @ tr2 @ snd k))"
  unfolding createVersionTag_def using assms
  by (simp add: Let_def)


lemma getEnvironmentVariables_trace:
  "snd (getEnvironmentVariables w) = []"
  by (simp add: getEnvironmentVariables_def Let_def throw_def ret_def)

lemma loadPubspec_trace:
  "snd (loadPubspec w workspace root) =
     [Debug (''Looking for pubspec.yaml at: '' @ path_join w workspace root ''pubspec.yaml'')]"
proof (cases "readFileSync w (path_join w workspace root ''pubspec.yaml'')")
  case (Inl e)
  then show ?thesis by (simp add: loadPubspec_def Let_def throw_def)
next
  case contents: (Inr fileContents)
  show ?thesis
  proof (cases "yaml_load w fileContents")
    case (Inl e)
    with contents show ?thesis by (simp add: loadPubspec_def Let_def throw_def)
  next
    case (Inr parsed)
    with contents show ?thesis
      by (simp add: loadPubspec_def Let_def throw_def ret_def split: yaml.splits)
  qed
qed

lemma fetchExistingTags_cases:
  "fetchExistingTags w owner repo =
     (case listTags w owner repo 100 of
        Inr data \<Rightarrow> (Inr data, [ListTags owner repo 100])
      | Inl e \<Rightarrow> (Inr [], [ListTags owner repo 100, Debug (''No tags found: '' @ error_text e)]))"
  by (simp add: fetchExistingTags_def request_def ret_def split: sum.splits)

lemma fetchExistingTags_quiet:
  "\<not> list_ex is_creation (snd (fetchExistingTags w owner repo))
   \<and> \<not> list_ex is_failure (snd (fetchExistingTags w owner repo))
   \<and> output_value (snd (fetchExistingTags w owner repo)) key = None"
  by (simp add: fetchExistingTags_cases split: sum.splits)

lemma output_value_append:
  "output_value (tr @ tr') key =
     (case output_value tr' key of Some v \<Rightarrow> Some v | None \<Rightarrow> output_value tr key)"
  by (induction tr) (auto split: option.splits)

lemma run_tag_exists_trace:
  assumes "getEnvironmentVariables w = (Inr (token, workspace, sha0), tr0)"
    and "loadPubspec w workspace (packageRoot (getActionInputs w)) = (Inr pubspec, tr1)"
    and "context_repo w = Inr (owner, repo)"
    and "fetchExistingTags w owner repo = (Inr existingTags, tr2)"
    and "tagExists existingTags (tagPrefix (getActionInputs w) @ version pubspec @ tagSuffix (getActionInputs w))"
  shows "run w =
     (Inr (),
      [Debug (''Looking for pubspec.yaml at: '' @ path_join w workspace (packageRoot (getActionInputs w)) ''pubspec.yaml''),
       Info (''Detected version: '' @ version pubspec),
       SetOutput ''version'' (version pubspec),
       Debug (''Repository: '' @ owner @ ''/'' @ repo)]
      @ tr2 @
      [Warning (''Tag '' @ [CHR 0x22] @ tagPrefix (getActionInputs w) @ version pubspec @ tagSuffix (getActionInputs w)
                 @ [CHR 0x22] @ '' already exists. Skipping tag creation.''),
       SetOutput ''tagname'' [], SetOutput ''tagsha'' [], SetOutput ''taguri'' [],
       SetOutput ''tagmessage'' [], SetOutput ''tagref'' []])"
proof -
  have t0: "tr0 = []" using getEnvironmentVariables_trace[of w] assms(1) by simp
  have t1: "tr1 = [Debug (''Looking for pubspec.yaml at: '' @ path_join w workspace (packageRoot (getActionInputs w)) ''pubspec.yaml'')]"
    using loadPubspec_trace[of w workspace "packageRoot (getActionInputs w)"] assms(2) by simp
  show ?thesis
    unfolding run_def createVersionTag_prefix[OF assms(1-4)]
    using assms(5) by (simp add: Let_def setActionOutputs_def no_outputs_def t0 t1)
qed

text \<open>
  C3. Whenever the configuration and the manifest are read, and the candidate tag name
  (prefix, version, suffix) is among the fetched tags, the invocation ends normally, the
  \<open>tagname\<close> output is the empty string, no request to create a tag object or a reference
  is sent, and no failure is reported.
\<close>

theorem run_tag_exists_noop:
  assumes "getEnvironmentVariables w = (Inr (token, workspace, sha0), tr0)"
    and "loadPubspec w workspace (packageRoot (getActionInputs w)) = (Inr pubspec, tr1)"
    and "context_repo w = Inr (owner, repo)"
    and "fetchExistingTags w owner repo = (Inr existingTags, tr2)"
    and "tagExists existingTags (tagPrefix (getActionInputs w) @ version pubspec @ tagSuffix (getActionInputs w))"
  shows "fst (run w) = Inr ()
    \<and> output_value (snd (run w)) ''tagname'' = Some []
    \<and> \<not> list_ex is_creation (snd (run w))
    \<and> \<not> list_ex is_failure (snd (run w))"
proof -
  have q: "\<not> list_ex is_creation tr2" "\<not> list_ex is_failure tr2"
    using fetchExistingTags_quiet[of w owner repo] assms(4) by simp_all
  show ?thesis
    unfolding run_tag_exists_trace[OF assms]
    using q by (simp add: output_value_append)
qed

lemma world0_env:
  "getEnvironmentVariables world0 = (Inr (''t0ken'', ''/ws'', ''c0ffee''), [])"
  by (simp add: getEnvironmentVariables_def world0_def or_opt_def truthy_def ret_def)

lemma world0_inputs:
  "getActionInputs world0 = \<lparr> packageRoot = ''./'', tagPrefix = ''v'', tagSuffix = [], tagMessage = [],
      changelogStructure = ''**{{message}}** {{sha}})'' @ [CHR 0x0A] \<rparr>"
  by (simp add: getActionInputs_def world0_def or_str_def truthy_def trim_def)

lemma world0_pubspec:
  "loadPubspec world0 ''/ws'' (packageRoot (getActionInputs world0)) =
      (Inr \<lparr>version = ''2.3.4''\<rparr>, [Debug ''Looking for pubspec.yaml at: /ws/pubspec.yaml''])"
  by (simp add: loadPubspec_def world0_def ret_def)

lemma world0_tags:
  "fetchExistingTags world0 ''octo'' ''app'' = (Inr [\<lparr>name = ''v2.3.3''\<rparr>], [ListTags ''octo'' ''app'' 100])"
  by (simp add: fetchExistingTags_cases world0_def)

lemma world0_message:
  "getTagMessage world0 ''octo'' ''app'' (tagMessage (getActionInputs world0)) [\<lparr>name = ''v2.3.3''\<rparr>]
     (changelogStructure (getActionInputs world0)) (version \<lparr>version = ''2.3.4''\<rparr>) =
   (Inr ''Version 2.3.4'',
    [CompareCommits ''octo'' ''app'' ''v2.3.3'' ''main'',
     Warning ''Failed to generate changelog: Not Found''])"
  by (simp add: getTagMessage_cases world0_inputs) (simp add: world0_def)

lemma world0_run:
  "run world0 =
     (Inr (),
      [Debug ''Looking for pubspec.yaml at: /ws/pubspec.yaml'',
       Info ''Detected version: 2.3.4'',
       SetOutput ''version'' ''2.3.4'',
       Debug ''Repository: octo/app'',
       ListTags ''octo'' ''app'' 100,
       CompareCommits ''octo'' ''app'' ''v2.3.3'' ''main'',
       Warning ''Failed to generate changelog: Not Found'',
       CreateTag ''octo'' ''app'' ''v2.3.4'' ''Version 2.3.4'' ''c0ffee'' ''commit'',
       Info ''Created tag object: v2.3.4'',
       CreateRef ''octo'' ''app'' ''refs/tags/v2.3.4'' ''9f3c1e'',
       SetFailed ''Reference already exists'',
       SetOutput ''tagname'' [], SetOutput ''tagsha'' [], SetOutput ''taguri'' [],
       SetOutput ''tagmessage'' [], SetOutput ''tagref'' []])"
proof -
  have c: "context_repo world0 = Inr (''octo'', ''app'')" by (simp add: world0_def)
  have g: "createGitTag world0 ''octo'' ''app'' ''v2.3.4'' ''Version 2.3.4'' ''c0ffee'' =
      (Inr ''9f3c1e'', [CreateTag ''octo'' ''app'' ''v2.3.4'' ''Version 2.3.4'' ''c0ffee'' ''commit'',
                       Info ''Created tag object: v2.3.4''])"
    by (simp add: createGitTag_def request_def ret_def world0_def)
  have r: "createGitReference world0 ''octo'' ''app'' ''v2.3.4'' ''9f3c1e'' =
      (Inl (Error ''Reference already exists''), [CreateRef ''octo'' ''app'' ''refs/tags/v2.3.4'' ''9f3c1e''])"
    by (simp add: createGitReference_def request_def world0_def)
  have m: "getTagMessage world0 ''octo'' ''app'' [] [\<lparr>name = ''v2.3.3''\<rparr>]
     (''**{{message}}** {{sha}})'' @ [CHR 0x0A]) ''2.3.4'' =
   (Inr ''Version 2.3.4'',
    [CompareCommits ''octo'' ''app'' ''v2.3.3'' ''main'',
     Warning ''Failed to generate changelog: Not Found''])"
    using world0_message by (simp add: world0_inputs)
  show ?thesis
    unfolding run_def createVersionTag_prefix[OF world0_env world0_pubspec c world0_tags]
    using m by (simp add: Let_def world0_inputs tagExists_def g r setActionOutputs_def no_outputs_def)
qed

text \<open>
  The theorem on the example invocation, with the host answering that \<open>v2.3.4\<close> exists.
\<close>

theorem run_tag_exists_noop_witness:
  "tagExists [\<lparr>name = ''v2.3.4''\<rparr>] ''v2.3.4''
   \<and> run (world0 \<lparr> listTags := (\<lambda>owner repo n. Inr [\<lparr>name = ''v2.3.4''\<rparr>]) \<rparr>) =
       (Inr (),
        [Debug ''Looking for pubspec.yaml at: /ws/pubspec.yaml'',
         Info ''Detected version: 2.3.4'',
         SetOutput ''version'' ''2.3.4'',
         Debug ''Repository: octo/app'',
         ListTags ''octo'' ''app'' 100,
         Warning (''Tag '' @ [CHR 0x22] @ ''v2.3.4'' @ [CHR 0x22] @ '' already exists. Skipping tag creation.''),
         SetOutput ''tagname'' [], SetOutput ''tagsha'' [], SetOutput ''taguri'' [],
         SetOutput ''tagmessage'' [], SetOutput ''tagref'' []])
   \<and> output_value (snd (run (world0 \<lparr> listTags := (\<lambda>owner repo n. Inr [\<lparr>name = ''v2.3.4''\<rparr>]) \<rparr>))) ''tagname'' = Some []
   \<and> \<not> list_ex is_creation (snd (run (world0 \<lparr> listTags := (\<lambda>owner repo n. Inr [\<lparr>name = ''v2.3.4''\<rparr>]) \<rparr>)))
   \<and> \<not> list_ex is_failure (snd (run (world0 \<lparr> listTags := (\<lambda>owner repo n. Inr [\<lparr>name = ''v2.3.4''\<rparr>]) \<rparr>)))"
proof -
  let ?w = "world0 \<lparr> listTags := (\<lambda>owner repo n. Inr [\<lparr>name = ''v2.3.4''\<rparr>]) \<rparr>"
  have e: "getEnvironmentVariables ?w = (Inr (''t0ken'', ''/ws'', ''c0ffee''), [])"
    by (simp add: getEnvironmentVariables_def world0_def or_opt_def truthy_def ret_def)
  have i: "getActionInputs ?w = \<lparr> packageRoot = ''./'', tagPrefix = ''v'', tagSuffix = [], tagMessage = [],
      changelogStructure = ''**{{message}}** {{sha}})'' @ [CHR 0x0A] \<rparr>"
    by (simp add: getActionInputs_def world0_def or_str_def truthy_def trim_def)
  have p: "loadPubspec ?w ''/ws'' (packageRoot (getActionInputs ?w)) =
      (Inr \<lparr>version = ''2.3.4''\<rparr>, [Debug ''Looking for pubspec.yaml at: /ws/pubspec.yaml''])"
    by (simp add: loadPubspec_def world0_def ret_def)
  have c: "context_repo ?w = Inr (''octo'', ''app'')"
    by (simp add: world0_def)
  have f: "fetchExistingTags ?w ''octo'' ''app'' = (Inr [\<lparr>name = ''v2.3.4''\<rparr>], [ListTags ''octo'' ''app'' 100])"
    by (simp add: fetchExistingTags_cases world0_def)
  have t: "tagExists [\<lparr>name = ''v2.3.4''\<rparr>]
      (tagPrefix (getActionInputs ?w) @ version \<lparr>version = ''2.3.4''\<rparr> @ tagSuffix (getActionInputs ?w))"
    by (simp add: i tagExists_def)
  have r: "run ?w = (Inr (),
        [Debug ''Looking for pubspec.yaml at: /ws/pubspec.yaml'',
         Info ''Detected version: 2.3.4'',
         SetOutput ''version'' ''2.3.4'',
         Debug ''Repository: octo/app'',
         ListTags ''octo'' ''app'' 100,
         Warning (''Tag '' @ [CHR 0x22] @ ''v2.3.4'' @ [CHR 0x22] @ '' already exists. Skipping tag creation.''),
         SetOutput ''tagname'' [], SetOutput ''tagsha'' [], SetOutput ''taguri'' [],
         SetOutput ''tagmessage'' [], SetOutput ''tagref'' []])"
    unfolding run_def createVersionTag_prefix[OF e p c f]
    by (simp add: i tagExists_def Let_def setActionOutputs_def no_outputs_def)
  show ?thesis
    using run_tag_exists_noop[OF e p c f t] r by (simp add: tagExists_def)
qed


text \<open>
  C2, as the code has it. When the reference cannot be created after the tag object was,
  the invocation reports a failure whose reason is the host's error text, sets the five tag
  outputs to the empty string, and sends nothing more to the host: the tag object stays.
  The failure carries the host's error text only; the one log line about the tag object
  is the earlier \<open>Created tag object\<close> line with the tag name the host answered, and the
  object's hash goes into the reference request alone.
\<close>

theorem run_reference_failure:
  assumes "getEnvironmentVariables w = (Inr (token, workspace, sha0), tr0)"
    and "loadPubspec w workspace (packageRoot (getActionInputs w)) = (Inr pubspec, tr1)"
    and "context_repo w = Inr (owner, repo)"
    and "fetchExistingTags w owner repo = (Inr existingTags, tr2)"
    and "tagName = tagPrefix (getActionInputs w) @ version pubspec @ tagSuffix (getActionInputs w)"
    and "\<not> tagExists existingTags tagName"
    and "getTagMessage w owner repo (tagMessage (getActionInputs w)) existingTags
           (changelogStructure (getActionInputs w)) (version pubspec) = (Inr msg, tr3)"
    and "createTag w owner repo tagName msg sha0 ''commit'' = Inr obj"
    and "createRef w owner repo (''refs/tags/'' @ tagName) (object_sha obj) = Inl e"
  shows "run w =
     (Inr (),
      tr1 @
      [Info (''Detected version: '' @ version pubspec),
       SetOutput ''version'' (version pubspec),
       Debug (''Repository: '' @ owner @ ''/'' @ repo)]
      @ tr2 @ tr3 @
      [CreateTag owner repo tagName msg sha0 ''commit'',
       Info (''Created tag object: '' @ tag obj),
       CreateRef owner repo (''refs/tags/'' @ tagName) (object_sha obj),
       SetFailed (error_text e),
       SetOutput ''tagname'' [], SetOutput ''tagsha'' [], SetOutput ''taguri'' [],
       SetOutput ''tagmessage'' [], SetOutput ''tagref'' []])"
proof -
  have t0: "tr0 = []" using getEnvironmentVariables_trace[of w] assms(1) by simp
  have g: "createGitTag w owner repo tagName msg sha0 =
      (Inr (object_sha obj), [CreateTag owner repo tagName msg sha0 ''commit'', Info (''Created tag object: '' @ tag obj)])"
    using assms(8) by (simp add: createGitTag_def request_def ret_def)
  have r: "createGitReference w owner repo tagName (object_sha obj) =
      (Inl e, [CreateRef owner repo (''refs/tags/'' @ tagName) (object_sha obj)])"
    using assms(9) by (simp add: createGitReference_def request_def)
  show ?thesis
    unfolding run_def createVersionTag_prefix[OF assms(1-4)]
    using assms(6) assms(7)
    by (simp add: Let_def assms(5)[symmetric] g r t0 setActionOutputs_def no_outputs_def)
qed

text \<open>
  The theorem on the example invocation.
\<close>

theorem run_reference_failure_witness:
  "createTag world0 ''octo'' ''app'' ''v2.3.4'' ''Version 2.3.4'' ''c0ffee'' ''commit'' =
     Inr \<lparr>tag = ''v2.3.4'', object_sha = ''9f3c1e''\<rparr>
   \<and> createRef world0 ''octo'' ''app'' ''refs/tags/v2.3.4'' ''9f3c1e'' = Inl (Error ''Reference already exists'')
   \<and> run world0 =
     (Inr (),
      [Debug ''Looking for pubspec.yaml at: /ws/pubspec.yaml'',
       Info ''Detected version: 2.3.4'',
       SetOutput ''version'' ''2.3.4'',
       Debug ''Repository: octo/app'',
       ListTags ''octo'' ''app'' 100,
       CompareCommits ''octo'' ''app'' ''v2.3.3'' ''main'',
       Warning ''Failed to generate changelog: Not Found'',
       CreateTag ''octo'' ''app'' ''v2.3.4'' ''Version 2.3.4'' ''c0ffee'' ''commit'',
       Info ''Created tag object: v2.3.4'',
       CreateRef ''octo'' ''app'' ''refs/tags/v2.3.4'' ''9f3c1e'',
       SetFailed ''Reference already exists'',
       SetOutput ''tagname'' [], SetOutput ''tagsha'' [], SetOutput ''taguri'' [],
       SetOutput ''tagmessage'' [], SetOutput ''tagref'' []])"
proof -
  have c: "context_repo world0 = Inr (''octo'', ''app'')" by (simp add: world0_def)
  have n: "''v2.3.4'' = tagPrefix (getActionInputs world0) @ version \<lparr>version = ''2.3.4''\<rparr>
             @ tagSuffix (getActionInputs world0)"
    by (simp add: world0_inputs)
  have x: "\<not> tagExists [\<lparr>name = ''v2.3.3''\<rparr>] ''v2.3.4''" by (simp add: tagExists_def)
  have t: "createTag world0 ''octo'' ''app'' ''v2.3.4'' ''Version 2.3.4'' ''c0ffee'' ''commit'' =
     Inr \<lparr>tag = ''v2.3.4'', object_sha = ''9f3c1e''\<rparr>"
    by (simp add: world0_def)
  have r: "createRef world0 ''octo'' ''app'' (''refs/tags/'' @ ''v2.3.4'')
        (object_sha \<lparr>tag = ''v2.3.4'', object_sha = ''9f3c1e''\<rparr>) = Inl (Error ''Reference already exists'')"
    by (simp add: world0_def)
  show ?thesis
    using run_reference_failure[OF world0_env world0_pubspec c world0_tags n x world0_message t r] t r
    by simp
qed

text \<open>
  C2, as stated, fails on the example invocation: the tag object \<open>9f3c1e\<close> is created,
  the reference is refused, and neither the reported failure nor any line of the log
  holds the hash of the orphaned tag object.
\<close>

theorem run_reference_failure_counterexample:
  "createTag world0 ''octo'' ''app'' ''v2.3.4'' ''Version 2.3.4'' ''c0ffee'' ''commit'' =
     Inr \<lparr>tag = ''v2.3.4'', object_sha = ''9f3c1e''\<rparr>
   \<and> createRef world0 ''octo'' ''app'' ''refs/tags/v2.3.4'' ''9f3c1e'' = Inl (Error ''Reference already exists'')
   \<and> filter is_failure (snd (run world0)) = [SetFailed ''Reference already exists'']
   \<and> \<not> list_ex (sublist ''9f3c1e'') (diagnostics (snd (run world0)))"
proof -
  have "createTag world0 ''octo'' ''app'' ''v2.3.4'' ''Version 2.3.4'' ''c0ffee'' ''commit'' =
     Inr \<lparr>tag = ''v2.3.4'', object_sha = ''9f3c1e''\<rparr>"
    and "createRef world0 ''octo'' ''app'' ''refs/tags/v2.3.4'' ''9f3c1e'' = Inl (Error ''Reference already exists'')"
    by (simp_all add: world0_def)
  moreover have "filter is_failure (snd (run world0)) = [SetFailed ''Reference already exists'']"
    by (simp add: world0_run)
  moreover have "\<not> list_ex (sublist ''9f3c1e'') (diagnostics (snd (run world0)))"
    by (simp add: world0_run diagnostics_def List.map_filter_simps sublist_code)
  ultimately show ?thesis by blast
qed

end
